theory Spec2Isabelle
  imports Main "HOL-Library.Sublist"
begin

section \<open>Python dictionaries\<close>

text \<open>
  The registry keeps its two catalogs in Python dictionaries and relies on their
  iteration order (the order of first insertion). A dictionary is therefore an
  association list in insertion order. Storing under a key that is already present
  replaces the value and keeps the key's position; storing under a new key appends.
\<close>

type_synonym ('k, 'v) dict = "('k \<times> 'v) list"

fun dict_setitem :: "('k, 'v) dict \<Rightarrow> 'k \<Rightarrow> 'v \<Rightarrow> ('k, 'v) dict" where
  "dict_setitem [] k v = [(k, v)]"
| "dict_setitem ((k', v') # d) k v =
     (if k' = k then (k', v) # d else (k', v') # dict_setitem d k v)"

text \<open>
  A dictionary display \<^verbatim>\<open>{k1: v1, k2: v2, ...}\<close> and a dictionary comprehension both
  start from the empty dictionary and store the pairs from left to right.
\<close>

definition dict_display :: "('k \<times> 'v) list \<Rightarrow> ('k, 'v) dict" where
  "dict_display kvs = foldl (\<lambda>d (k, v). dict_setitem d k v) [] kvs"

text \<open>\<^verbatim>\<open>d.items()\<close>: the pairs in insertion order.\<close>

definition dict_items :: "('k, 'v) dict \<Rightarrow> ('k \<times> 'v) list" where
  "dict_items d = d"

text \<open>
  \<^verbatim>\<open>d.get(k)\<close> with no default: the value stored under \<open>k\<close>, or Python's \<^verbatim>\<open>None\<close>
  (here \<open>None\<close> of the option type) when there is none. Unlike \<^verbatim>\<open>d[k]\<close> it has no
  \<^verbatim>\<open>KeyError\<close> branch.
\<close>

definition dict_get :: "('k, 'v) dict \<Rightarrow> 'k \<Rightarrow> 'v option" where
  "dict_get d k = map_of d k"

section \<open>The classes and tables of the registry module\<close>

record ToolInfo =
  name :: string
  module :: string
  description :: string
  usage :: string
  examples :: "string list"
  data_type :: string

text \<open>
  \<^verbatim>\<open>ToolInfo.__init__\<close> stores its arguments as they come; \<^verbatim>\<open>data_type\<close> is any string
  and defaults to \<^verbatim>\<open>"both"\<close> when the caller leaves it out (\<open>None\<close> below).
\<close>

definition ToolInfo_init ::
  "string \<Rightarrow> string \<Rightarrow> string \<Rightarrow> string \<Rightarrow> string list \<Rightarrow> string option \<Rightarrow> ToolInfo" where
  "ToolInfo_init name' module' description' usage' examples' data_type' =
     \<lparr> name = name', module = module', description = description', usage = usage',
       examples = examples',
       data_type = (case data_type' of None \<Rightarrow> ''both'' | Some s \<Rightarrow> s) \<rparr>"

text \<open>The key/value pairs of the \<^verbatim>\<open>TOOLS\<close> display, in the order they are written.\<close>

definition TOOLS_items :: "(string \<times> ToolInfo) list" where
  "TOOLS_items =
    [ (''partial_data_assessor'', ToolInfo_init
         ''Partial Data Assessor''
         ''analyzer_tools.partial_data_assessor''
         ''Assess quality of partial reflectometry data by analyzing overlap regions between data parts. Calculates chi-squared metrics and generates visualization reports.''
         ''python analyzer_tools/partial_data_assessor.py <set_id>''
         [ ''python analyzer_tools/partial_data_assessor.py 218281'',
           ''python analyzer_tools/partial_data_assessor.py 218328'' ]
         (Some ''partial'')),
      (''run_fit'', ToolInfo_init
         ''Reflectivity Fit Runner''
         ''analyzer_tools.run_fit''
         ''Run reflectivity fits on combined data using specified models. Performs least-squares fitting and generates fit reports with uncertainty analysis.''
         ''python analyzer_tools/run_fit.py <data_id> <model_name>''
         [ ''python analyzer_tools/run_fit.py 218281 cu_thf'',
           ''python analyzer_tools/run_fit.py 218328 cu_thf_temp'' ]
         (Some ''combined'')),
      (''result_assessor'', ToolInfo_init
         ''Fit Result Assessor''
         ''analyzer_tools.result_assessor''
         ''Assess quality of fitting results by analyzing chi-squared values, parameter uncertainties, and generating comparison plots.''
         ''python analyzer_tools/result_assessor.py <data_id> <model_name>''
         [ ''python analyzer_tools/result_assessor.py 218281 cu_thf'',
           ''python analyzer_tools/result_assessor.py 218328 cu_thf_temp'' ]
         (Some ''combined'')),
      (''create_model_script'', ToolInfo_init
         ''Model Script Creator''
         ''analyzer_tools.create_model_script''
         ''Generate fitting scripts by combining model definitions with fitting commands. Useful for batch processing and reproducible analysis.''
         ''python analyzer_tools/create_model_script.py <model_name> <data_file> [--model_dir DIR] [--output_dir DIR]''
         [ ''python analyzer_tools/create_model_script.py cu_thf data.txt'',
           ''python analyzer_tools/create_model_script.py cu_thf data.txt --output_dir custom_output'' ]
         (Some ''combined'')),
      (''create_temporary_model'', ToolInfo_init
         ''Temporary Model Creator''
         ''analyzer_tools.create_temporary_model''
         ''Create temporary models with adjusted parameter ranges for sensitivity analysis and parameter exploration.''
         ''python analyzer_tools/create_temporary_model.py <base_model> <new_model> --adjust <param> <min>,<max>''
         [ ''python analyzer_tools/create_temporary_model.py cu_thf cu_thf_temp --adjust Cu thickness 500,800'',
           ''python analyzer_tools/create_temporary_model.py cu_thf cu_thf_wide --adjust Cu thickness 300,1000'' ]
         (Some ''both'')) ]"

definition TOOLS :: "(string, ToolInfo) dict" where
  "TOOLS = dict_display TOOLS_items"

text \<open>
  A workflow is a dictionary with the four fixed keys \<^verbatim>\<open>"name"\<close>, \<^verbatim>\<open>"description"\<close>,
  \<^verbatim>\<open>"steps"\<close> and \<^verbatim>\<open>"tools"\<close>, read as a structure; \<^verbatim>\<open>"tools"\<close> is a list of tool keys.
\<close>

record Workflow =
  wf_name :: string
  wf_description :: string
  wf_steps :: "string list"
  wf_tools :: "string list"

text \<open>The key/value pairs of the \<^verbatim>\<open>WORKFLOWS\<close> display, in the order they are written.\<close>

definition WORKFLOWS_items :: "(string \<times> Workflow) list" where
  "WORKFLOWS_items =
    [ (''partial_data_quality'',
         \<lparr> wf_name = ''Partial Data Quality Assessment'',
           wf_description = ''Assess the quality of partial reflectometry data before combining'',
           wf_steps =
             [ ''1. Use partial_data_assessor to check overlap quality'',
               ''2. Review chi-squared metrics (< 2.0 is typically good)'',
               ''3. Examine overlap plots for systematic deviations'',
               ''4. Identify problematic datasets for further investigation'' ],
           wf_tools = [ ''partial_data_assessor'' ] \<rparr>),
      (''standard_fitting'',
         \<lparr> wf_name = ''Standard Reflectivity Fitting'',
           wf_description = ''Complete workflow for fitting reflectivity data'',
           wf_steps =
             [ ''1. Use run_fit to perform initial fitting'',
               ''2. Use result_assessor to evaluate fit quality'',
               ''3. If poor fit, use create_temporary_model to adjust parameters'',
               ''4. Re-run fitting with adjusted model'',
               ''5. Generate final reports'' ],
           wf_tools = [ ''run_fit'', ''result_assessor'', ''create_temporary_model'' ] \<rparr>),
      (''parameter_exploration'',
         \<lparr> wf_name = ''Parameter Sensitivity Analysis'',
           wf_description = ''Explore parameter sensitivity and uncertainty'',
           wf_steps =
             [ ''1. Start with standard fitting workflow'',
               ''2. Use create_temporary_model to create variants with different parameter ranges'',
               ''3. Run fits on multiple parameter sets'',
               ''4. Use result_assessor to compare results'',
               ''5. Identify sensitive parameters and optimal ranges'' ],
           wf_tools = [ ''run_fit'', ''result_assessor'', ''create_temporary_model'' ] \<rparr>) ]"

definition WORKFLOWS :: "(string, Workflow) dict" where
  "WORKFLOWS = dict_display WORKFLOWS_items"

section \<open>The module's state and its query functions\<close>

text \<open>
  \<^verbatim>\<open>TOOLS\<close> and \<^verbatim>\<open>WORKFLOWS\<close> are module-level variables holding mutable dictionaries.
  The functions read them when they are called, so each function takes the module's
  globals and returns its result together with the globals it leaves behind.
  \<open>module_loaded\<close> is the state once the module body has run.
\<close>

record globals =
  g_TOOLS :: "(string, ToolInfo) dict"
  g_WORKFLOWS :: "(string, Workflow) dict"

definition module_loaded :: globals where
  "module_loaded = \<lparr> g_TOOLS = TOOLS, g_WORKFLOWS = WORKFLOWS \<rparr>"

definition get_all_tools :: "globals \<Rightarrow> (string, ToolInfo) dict \<times> globals" where
  "get_all_tools g = (g_TOOLS g, g)"

definition get_tool :: "string \<Rightarrow> globals \<Rightarrow> ToolInfo option \<times> globals" where
  "get_tool tool_name g = (dict_get (g_TOOLS g) tool_name, g)"

definition get_tools_by_data_type ::
  "string \<Rightarrow> globals \<Rightarrow> (string, ToolInfo) dict \<times> globals" where
  "get_tools_by_data_type data_type' g =
     (dict_display
        (filter (\<lambda>(name, tool). data_type tool = data_type' \<or> data_type tool = ''both'')
           (dict_items (g_TOOLS g))),
      g)"

definition get_workflows :: "globals \<Rightarrow> (string, Workflow) dict \<times> globals" where
  "get_workflows g = (g_WORKFLOWS g, g)"

section \<open>Dangling references\<close>

text \<open>
  A workflow reference is dangling when \<^verbatim>\<open>get_tool\<close> finds no entry for it. The module
  has no function that looks for such references. The abbreviation below only names,
  for the statements that follow, the expression a caller can build from the module's
  own \<^verbatim>\<open>get_workflows\<close> and \<^verbatim>\<open>get_tool\<close>: the workflows in catalog order, the
  references of each in list order, those kept for which \<^verbatim>\<open>get_tool\<close> returns
  \<^verbatim>\<open>None\<close>, each paired with the key of its workflow.
\<close>

abbreviation dangling_references :: "globals \<Rightarrow> (string \<times> string) list" where
  "dangling_references g \<equiv>
     [(wk, t). (wk, w) \<leftarrow> fst (get_workflows g), t \<leftarrow> wf_tools w, fst (get_tool t g) = None]"

text \<open>
  A corrupted catalog: the state of the loaded module after the assignment
  \<^verbatim>\<open>WORKFLOWS["W1"] = {"name": "W1", "description": "", "steps": [], "tools": ["run_fit", "Z"]}\<close>.
  The tool catalog has a key \<^verbatim>\<open>run_fit\<close> and no key \<^verbatim>\<open>Z\<close>.
\<close>

definition corrupted :: globals where
  "corrupted =
     module_loaded \<lparr> g_WORKFLOWS :=
       dict_setitem (g_WORKFLOWS module_loaded) ''W1''
         \<lparr> wf_name = ''W1'', wf_description = [], wf_steps = [],
           wf_tools = [ ''run_fit'', ''Z'' ] \<rparr> \<rparr>"

section \<open>Facts about dictionaries\<close>

lemma dict_setitem_fresh:
  "k \<notin> fst ` set d \<Longrightarrow> dict_setitem d k v = d @ [(k, v)]"
  by (induction d) auto

lemma dict_setitem_keys:
  "fst ` set (dict_setitem d k v) = insert k (fst ` set d)"
proof (induction d)
  case Nil
  show ?case by simp
next
  case (Cons p d)
  obtain k' v' where p: "p = (k', v')" by (cases p)
  show ?case
  proof (cases "k' = k")
    case True
    with p show ?thesis by simp
  next
    case False
    with p Cons.IH show ?thesis by (simp add: insert_commute)
  qed
qed

lemma distinct_dict_setitem:
  "distinct (map fst d) \<Longrightarrow> distinct (map fst (dict_setitem d k v))"
proof (induction d)
  case Nil
  show ?case by simp
next
  case (Cons p d)
  obtain k' v' where p: "p = (k', v')" by (cases p)
  show ?case
  proof (cases "k' = k")
    case True
    with Cons.prems p show ?thesis by simp
  next
    case False
    have "k' \<notin> fst ` set (dict_setitem d k v)"
      using Cons.prems p False by (simp add: dict_setitem_keys)
    with Cons p False show ?thesis by simp
  qed
qed

lemma foldl_setitem_distinct:
  "distinct (map fst (acc @ kvs)) \<Longrightarrow>
   foldl (\<lambda>d (k, v). dict_setitem d k v) acc kvs = acc @ kvs"
proof (induction kvs arbitrary: acc)
  case Nil
  show ?case by simp
next
  case (Cons p kvs)
  obtain k v where p: "p = (k, v)" by (cases p)
  have fresh: "k \<notin> fst ` set acc"
    using Cons.prems p by auto
  have "distinct (map fst ((acc @ [(k, v)]) @ kvs))"
    using Cons.prems p by simp
  then have "foldl (\<lambda>d (k, v). dict_setitem d k v) (acc @ [(k, v)]) kvs = (acc @ [(k, v)]) @ kvs"
    by (rule Cons.IH)
  with fresh p show ?case
    by (simp add: dict_setitem_fresh)
qed

lemma foldl_setitem_keys_distinct:
  "distinct (map fst acc) \<Longrightarrow>
   distinct (map fst (foldl (\<lambda>d (k, v). dict_setitem d k v) acc kvs))"
  by (induction kvs arbitrary: acc) (auto simp: distinct_dict_setitem)

lemma dict_display_distinct:
  "distinct (map fst kvs) \<Longrightarrow> dict_display kvs = kvs"
  using foldl_setitem_distinct [of "[]" kvs] by (simp add: dict_display_def)

lemma distinct_dict_display:
  "distinct (map fst (dict_display kvs))"
  by (simp add: dict_display_def foldl_setitem_keys_distinct)

lemma dict_display_filter:
  "distinct (map fst d) \<Longrightarrow> dict_display (filter P d) = filter P d"
  by (rule dict_display_distinct) (simp add: distinct_map_filter)

section \<open>Facts about the two tables\<close>

lemma TOOLS_keys:
  "map fst TOOLS_items =
     [ ''partial_data_assessor'', ''run_fit'', ''result_assessor'', ''create_model_script'',
       ''create_temporary_model'' ]"
  by (simp add: TOOLS_items_def)

lemma TOOLS_data_types:
  "map (\<lambda>(k, e). data_type e) TOOLS_items =
     [ ''partial'', ''combined'', ''combined'', ''combined'', ''both'' ]"
  by (simp add: TOOLS_items_def ToolInfo_init_def)

lemma distinct_TOOLS_items: "distinct (map fst TOOLS_items)"
  by (simp add: TOOLS_keys)

lemma TOOLS_eq: "TOOLS = TOOLS_items"
  unfolding TOOLS_def by (rule dict_display_distinct [OF distinct_TOOLS_items])

lemma WORKFLOWS_keys:
  "map fst WORKFLOWS_items =
     [ ''partial_data_quality'', ''standard_fitting'', ''parameter_exploration'' ]"
  by (simp add: WORKFLOWS_items_def)

lemma WORKFLOWS_eq: "WORKFLOWS = WORKFLOWS_items"
  unfolding WORKFLOWS_def by (rule dict_display_distinct) (simp add: WORKFLOWS_keys)

lemma length_TOOLS_items: "length TOOLS_items = 5"
  using arg_cong [OF TOOLS_keys, of length] by simp

section \<open>The queries on the loaded module\<close>

lemma loaded_tools: "fst (get_all_tools module_loaded) = TOOLS_items"
  by (simp add: get_all_tools_def module_loaded_def TOOLS_eq)

lemma loaded_workflows: "fst (get_workflows module_loaded) = WORKFLOWS_items"
  by (simp add: get_workflows_def module_loaded_def WORKFLOWS_eq)

lemma loaded_by_data_type:
  "fst (get_tools_by_data_type c module_loaded) =
     filter (\<lambda>(name, tool). data_type tool = c \<or> data_type tool = ''both'') TOOLS_items"
  by (simp add: get_tools_by_data_type_def module_loaded_def dict_items_def TOOLS_eq
      dict_display_filter distinct_TOOLS_items)

lemma loaded_get_tool: "fst (get_tool k module_loaded) = map_of TOOLS_items k"
  by (simp add: get_tool_def module_loaded_def dict_get_def TOOLS_eq)

section \<open>Filtering by data type\<close>

text \<open>
  C1. For every entry \<open>e\<close> of the tool catalog and every category \<open>c\<close> among
  \<^verbatim>\<open>"partial"\<close> and \<^verbatim>\<open>"combined"\<close>, \<open>e\<close> is in the result of
  \<^verbatim>\<open>get_tools_by_data_type(c)\<close> exactly when its \<^verbatim>\<open>data_type\<close> is \<open>c\<close> or
  \<^verbatim>\<open>"both"\<close>. In particular an entry tagged \<^verbatim>\<open>"both"\<close> is in the results for both
  categories, and an entry tagged \<^verbatim>\<open>"combined"\<close> is not in the result for
  \<^verbatim>\<open>"partial"\<close>.
\<close>

theorem category_filter_correct:
  assumes "(k, e) \<in> set (fst (get_all_tools module_loaded))"
    and "c \<in> {''partial'', ''combined''}"
  shows "((k, e) \<in> set (fst (get_tools_by_data_type c module_loaded)) \<longleftrightarrow>
           data_type e = c \<or> data_type e = ''both'')
       \<and> (data_type e = ''both'' \<longrightarrow>
            (k, e) \<in> set (fst (get_tools_by_data_type ''partial'' module_loaded)) \<and>
            (k, e) \<in> set (fst (get_tools_by_data_type ''combined'' module_loaded)))
       \<and> (data_type e = ''combined'' \<longrightarrow>
            (k, e) \<notin> set (fst (get_tools_by_data_type ''partial'' module_loaded)))"
  using assms by (auto simp: loaded_tools loaded_by_data_type)

text \<open>
  The fifth entry of the catalog, \<^verbatim>\<open>create_temporary_model\<close>, is tagged \<^verbatim>\<open>"both"\<close>
  and is returned for \<^verbatim>\<open>"partial"\<close> and for \<^verbatim>\<open>"combined"\<close>.
\<close>

theorem category_filter_correct_witness:
  "TOOLS_items ! 4 \<in> set (fst (get_all_tools module_loaded))
   \<and> ''partial'' \<in> {''partial'', ''combined''}
   \<and> data_type (snd (TOOLS_items ! 4)) = ''both''
   \<and> TOOLS_items ! 4 \<in> set (fst (get_tools_by_data_type ''partial'' module_loaded))
   \<and> TOOLS_items ! 4 \<in> set (fst (get_tools_by_data_type ''combined'' module_loaded))"
proof -
  have mem: "(fst (TOOLS_items ! 4), snd (TOOLS_items ! 4)) \<in> set (fst (get_all_tools module_loaded))"
    by (simp add: loaded_tools length_TOOLS_items)
  have c: "''partial'' \<in> {''partial'', ''combined''}"
    by simp
  have dt: "data_type (snd (TOOLS_items ! 4)) = ''both''"
    by (simp add: TOOLS_items_def ToolInfo_init_def)
  from category_filter_correct [OF mem c] mem c dt show ?thesis
    by simp
qed

section \<open>Looking up a key that is not there\<close>

text \<open>
  C2. For every key \<open>k\<close> that is not a key of the tool catalog, \<^verbatim>\<open>get_tool(k)\<close>
  returns \<^verbatim>\<open>None\<close>, the explicit absent signal: the function has no raising branch,
  it returns no entry in its place and leaves the catalogs as they were, and the
  result differs from the result for every key that is present.
\<close>

theorem get_tool_absent:
  assumes "k \<notin> fst ` set (fst (get_all_tools g))"
  shows "fst (get_tool k g) = None
       \<and> snd (get_tool k g) = g
       \<and> (\<forall>k' \<in> fst ` set (fst (get_all_tools g)).
            fst (get_tool k' g) \<noteq> fst (get_tool k g))"
proof -
  have absent: "fst (get_tool k g) = None"
    using assms by (simp add: get_tool_def get_all_tools_def dict_get_def map_of_eq_None_iff)
  have present: "fst (get_tool k' g) \<noteq> None"
    if "k' \<in> fst ` set (fst (get_all_tools g))" for k'
    using that by (simp add: get_tool_def get_all_tools_def dict_get_def map_of_eq_None_iff)
  show ?thesis
    using absent present by (simp add: get_tool_def)
qed

text \<open>
  On the loaded module, \<^verbatim>\<open>"nonexistent_key"\<close> is looked up to \<^verbatim>\<open>None\<close>, which is not
  what \<^verbatim>\<open>"run_fit"\<close> is looked up to.
\<close>

theorem get_tool_absent_witness:
  "''nonexistent_key'' \<notin> fst ` set (fst (get_all_tools module_loaded))
   \<and> fst (get_tool ''nonexistent_key'' module_loaded) = None
   \<and> fst (get_tool ''run_fit'' module_loaded) \<noteq> fst (get_tool ''nonexistent_key'' module_loaded)"
proof -
  have keys: "fst ` set (fst (get_all_tools module_loaded)) = set (map fst TOOLS_items)"
    by (simp add: loaded_tools)
  have absent: "''nonexistent_key'' \<notin> fst ` set (fst (get_all_tools module_loaded))"
    unfolding keys TOOLS_keys by simp
  have present: "''run_fit'' \<in> fst ` set (fst (get_all_tools module_loaded))"
    unfolding keys TOOLS_keys by simp
  from get_tool_absent [OF absent] absent present show ?thesis
    by blast
qed

section \<open>References from workflows to tools\<close>

text \<open>
  C3. Referential integrity of the static catalogs: for every workflow \<open>w\<close> of the
  workflow catalog and every tool reference \<open>t\<close> in its \<^verbatim>\<open>"tools"\<close> list,
  \<^verbatim>\<open>get_tool(t)\<close> is present and is the entry the tool catalog keeps under \<open>t\<close>.
  No workflow has a dangling reference.
\<close>

theorem referential_integrity:
  "\<forall>(wk, w) \<in> set (fst (get_workflows module_loaded)). \<forall>t \<in> set (wf_tools w).
     \<exists>e. fst (get_tool t module_loaded) = Some e
        \<and> (t, e) \<in> set (fst (get_all_tools module_loaded))"
proof -
  have refs: "\<forall>(wk, w) \<in> set WORKFLOWS_items. \<forall>t \<in> set (wf_tools w).
                t \<in> set (map fst TOOLS_items)"
    unfolding TOOLS_keys by (simp add: WORKFLOWS_items_def)
  have res: "\<exists>e. map_of TOOLS_items t = Some e \<and> (t, e) \<in> set TOOLS_items"
    if "t \<in> set (map fst TOOLS_items)" for t
  proof -
    from that obtain e where "(t, e) \<in> set TOOLS_items"
      by auto
    with distinct_TOOLS_items show ?thesis
      by auto
  qed
  show ?thesis
    unfolding loaded_workflows loaded_get_tool loaded_tools using refs res by blast
qed

text \<open>
  The second workflow, \<^verbatim>\<open>standard_fitting\<close>, names \<^verbatim>\<open>create_temporary_model\<close>, which
  resolves.
\<close>

theorem referential_integrity_witness:
  "WORKFLOWS_items ! 1 \<in> set (fst (get_workflows module_loaded))
   \<and> ''create_temporary_model'' \<in> set (wf_tools (snd (WORKFLOWS_items ! 1)))
   \<and> (\<exists>e. fst (get_tool ''create_temporary_model'' module_loaded) = Some e
          \<and> (''create_temporary_model'', e) \<in> set (fst (get_all_tools module_loaded)))"
proof -
  have w: "(fst (WORKFLOWS_items ! 1), snd (WORKFLOWS_items ! 1))
             \<in> set (fst (get_workflows module_loaded))"
    by (simp add: loaded_workflows WORKFLOWS_items_def)
  have t: "''create_temporary_model'' \<in> set (wf_tools (snd (WORKFLOWS_items ! 1)))"
    by (simp add: WORKFLOWS_items_def)
  from referential_integrity w t
  have "\<exists>e. fst (get_tool ''create_temporary_model'' module_loaded) = Some e
          \<and> (''create_temporary_model'', e) \<in> set (fst (get_all_tools module_loaded))"
    by blast
  with w t show ?thesis
    by simp
qed

lemma concat_map_if:
  "concat (map (\<lambda>t. if P t then [f t] else []) xs) = map f (filter P xs)"
  by (induction xs) simp_all

lemma get_tool_None_iff:
  "fst (get_tool t g) = None \<longleftrightarrow> t \<notin> fst ` set (g_TOOLS g)"
  by (simp add: get_tool_def dict_get_def map_of_eq_None_iff)

lemma dangling_references_concat:
  "dangling_references g =
     concat (map (\<lambda>(wk, w). map (Pair wk)
                    (filter (\<lambda>t. t \<notin> fst ` set (g_TOOLS g)) (wf_tools w)))
               (g_WORKFLOWS g))"
proof -
  have ws: "fst (get_workflows g) = g_WORKFLOWS g"
    by (simp add: get_workflows_def)
  have "(\<lambda>(wk, w). concat (map (\<lambda>t. if fst (get_tool t g) = None then [(wk, t)] else [])
                              (wf_tools w)))
      = (\<lambda>(wk, w). map (Pair wk) (filter (\<lambda>t. t \<notin> fst ` set (g_TOOLS g)) (wf_tools w)))"
    by (simp add: concat_map_if get_tool_None_iff fun_eq_iff)
  then show ?thesis
    unfolding ws by (rule arg_cong [where f = "\<lambda>h. concat (map h (g_WORKFLOWS g))"])
qed

lemma loaded_dangling: "dangling_references module_loaded = []"
  unfolding loaded_workflows loaded_get_tool
  by (simp add: WORKFLOWS_items_def TOOLS_items_def)

lemma corrupted_tools: "g_TOOLS corrupted = TOOLS_items"
  by (simp add: corrupted_def module_loaded_def TOOLS_eq)

lemma corrupted_workflows:
  "g_WORKFLOWS corrupted = WORKFLOWS_items @
     [(''W1'', \<lparr> wf_name = ''W1'', wf_description = [], wf_steps = [],
                wf_tools = [ ''run_fit'', ''Z'' ] \<rparr>)]"
proof -
  have "''W1'' \<notin> fst ` set WORKFLOWS_items"
    using WORKFLOWS_keys by (simp flip: set_map)
  then show ?thesis
    by (simp add: corrupted_def module_loaded_def WORKFLOWS_eq dict_setitem_fresh)
qed

lemma corrupted_dangling: "dangling_references corrupted = [(''W1'', ''Z'')]"
proof -
  have keys: "fst ` set (g_TOOLS corrupted) = set (map fst TOOLS_items)"
    by (simp add: corrupted_tools)
  show ?thesis
    unfolding dangling_references_concat [of corrupted] keys TOOLS_keys corrupted_workflows
    by (simp add: WORKFLOWS_items_def)
qed

text \<open>
  C4, as the claim states it, fails: the claim has the registry provide an operation
  that returns the empty sequence when all references are valid and reports the
  reference that does not resolve otherwise. On the loaded module every reference is
  valid, and in the corrupted catalog the one reference \<^verbatim>\<open>Z\<close> of workflow \<^verbatim>\<open>W1\<close> is
  not. Yet \<^verbatim>\<open>get_all_tools\<close>, \<^verbatim>\<open>get_tool\<close> and \<^verbatim>\<open>get_tools_by_data_type\<close> return on
  the corrupted catalog what they return on the loaded module, whatever their
  argument, and \<^verbatim>\<open>get_workflows\<close> does not return an empty result on the loaded
  module. No query of the registry is that operation.
\<close>

theorem no_query_reports_dangling_reference:
  "dangling_references module_loaded = []
   \<and> dangling_references corrupted = [(''W1'', ''Z'')]
   \<and> fst (get_all_tools corrupted) = fst (get_all_tools module_loaded)
   \<and> (\<forall>k. fst (get_tool k corrupted) = fst (get_tool k module_loaded))
   \<and> (\<forall>c. fst (get_tools_by_data_type c corrupted) =
            fst (get_tools_by_data_type c module_loaded))
   \<and> fst (get_workflows module_loaded) \<noteq> []"
proof -
  have same: "g_TOOLS corrupted = g_TOOLS module_loaded"
    by (simp add: corrupted_def)
  have wf: "fst (get_workflows module_loaded) \<noteq> []"
    by (simp add: loaded_workflows WORKFLOWS_items_def)
  show ?thesis
    using loaded_dangling corrupted_dangling wf
    by (simp add: get_all_tools_def get_tool_def get_tools_by_data_type_def same)
qed

text \<open>
  C4, amended. The registry has no operation that validates workflow references:
  each of its four queries reads one catalog only. The results of \<^verbatim>\<open>get_all_tools\<close>,
  \<^verbatim>\<open>get_tool\<close> and \<^verbatim>\<open>get_tools_by_data_type\<close> stay the same when the workflow catalog
  is replaced, and the result of \<^verbatim>\<open>get_workflows\<close> stays the same when the tool
  catalog is replaced. The scan the claim describes is the composition of
  \<^verbatim>\<open>get_workflows\<close> and \<^verbatim>\<open>get_tool\<close> named \<open>dangling_references\<close> above. For every
  state of the two catalogs its two queries leave the state as it was, it returns
  one issue for each reference of each workflow that is no key of the tool catalog,
  in order, and no others, and it returns the empty sequence exactly when every
  reference is a key of the tool catalog. On the loaded module it is empty.
\<close>

theorem dangling_references_exact:
  "fst (get_all_tools (g\<lparr>g_WORKFLOWS := ws\<rparr>)) = fst (get_all_tools g)
   \<and> fst (get_tool k (g\<lparr>g_WORKFLOWS := ws\<rparr>)) = fst (get_tool k g)
   \<and> fst (get_tools_by_data_type c (g\<lparr>g_WORKFLOWS := ws\<rparr>)) =
       fst (get_tools_by_data_type c g)
   \<and> fst (get_workflows (g\<lparr>g_TOOLS := ts\<rparr>)) = fst (get_workflows g)
   \<and> snd (get_workflows g) = g \<and> snd (get_tool k g) = g
   \<and> dangling_references g =
       concat (map (\<lambda>(wk, w). map (Pair wk)
                      (filter (\<lambda>t. t \<notin> fst ` set (g_TOOLS g)) (wf_tools w)))
                 (g_WORKFLOWS g))
   \<and> set (dangling_references g) =
       {(wk, t). \<exists>w. (wk, w) \<in> set (g_WORKFLOWS g) \<and> t \<in> set (wf_tools w)
                   \<and> t \<notin> fst ` set (g_TOOLS g)}
   \<and> (dangling_references g = [] \<longleftrightarrow>
        (\<forall>(wk, w) \<in> set (g_WORKFLOWS g). \<forall>t \<in> set (wf_tools w).
           t \<in> fst ` set (g_TOOLS g)))
   \<and> dangling_references module_loaded = []"
proof -
  have indep:
    "fst (get_all_tools (g\<lparr>g_WORKFLOWS := ws\<rparr>)) = fst (get_all_tools g)
     \<and> fst (get_tool k (g\<lparr>g_WORKFLOWS := ws\<rparr>)) = fst (get_tool k g)
     \<and> fst (get_tools_by_data_type c (g\<lparr>g_WORKFLOWS := ws\<rparr>)) =
         fst (get_tools_by_data_type c g)
     \<and> fst (get_workflows (g\<lparr>g_TOOLS := ts\<rparr>)) = fst (get_workflows g)"
    by (simp add: get_all_tools_def get_tool_def get_tools_by_data_type_def get_workflows_def)
  have pure: "snd (get_workflows g) = g \<and> snd (get_tool k g) = g"
    by (simp add: get_workflows_def get_tool_def)
  have cc: "dangling_references g =
       concat (map (\<lambda>(wk, w). map (Pair wk)
                      (filter (\<lambda>t. t \<notin> fst ` set (g_TOOLS g)) (wf_tools w)))
                 (g_WORKFLOWS g))"
    by (rule dangling_references_concat)
  have st: "set (dangling_references g) =
       {(wk, t). \<exists>w. (wk, w) \<in> set (g_WORKFLOWS g) \<and> t \<in> set (wf_tools w)
                   \<and> t \<notin> fst ` set (g_TOOLS g)}"
    unfolding cc by auto
  have em: "dangling_references g = [] \<longleftrightarrow>
        (\<forall>(wk, w) \<in> set (g_WORKFLOWS g). \<forall>t \<in> set (wf_tools w).
           t \<in> fst ` set (g_TOOLS g))"
    unfolding cc by (auto simp: filter_empty_conv)
  from indep pure cc st em loaded_dangling show ?thesis
    by blast
qed

text \<open>
  On the corrupted catalog the scan returns the one issue naming \<^verbatim>\<open>Z\<close>. On the
  loaded module it is empty, so the reference of the first workflow is a key of the
  tool catalog.
\<close>

theorem dangling_references_exact_witness:
  "dangling_references corrupted = [(''W1'', ''Z'')]
   \<and> ''Z'' \<notin> fst ` set (g_TOOLS corrupted)
   \<and> WORKFLOWS_items ! 0 \<in> set (g_WORKFLOWS module_loaded)
   \<and> ''partial_data_assessor'' \<in> set (wf_tools (snd (WORKFLOWS_items ! 0)))
   \<and> ''partial_data_assessor'' \<in> fst ` set (g_TOOLS module_loaded)"
proof -
  have keys: "fst ` set (g_TOOLS corrupted) = set (map fst TOOLS_items)"
    by (simp add: corrupted_tools)
  have nokey: "''Z'' \<notin> fst ` set (g_TOOLS corrupted)"
    unfolding keys TOOLS_keys by simp
  from dangling_references_exact [where g = corrupted]
  have "dangling_references corrupted =
       concat (map (\<lambda>(wk, w). map (Pair wk)
                      (filter (\<lambda>t. t \<notin> fst ` set (g_TOOLS corrupted)) (wf_tools w)))
                 (g_WORKFLOWS corrupted))"
    by blast
  then have bad: "dangling_references corrupted = [(''W1'', ''Z'')]"
    unfolding keys TOOLS_keys corrupted_workflows by (simp add: WORKFLOWS_items_def)
  have w: "(fst (WORKFLOWS_items ! 0), snd (WORKFLOWS_items ! 0))
             \<in> set (g_WORKFLOWS module_loaded)"
    by (simp add: module_loaded_def WORKFLOWS_eq WORKFLOWS_items_def)
  have t: "''partial_data_assessor'' \<in> set (wf_tools (snd (WORKFLOWS_items ! 0)))"
    by (simp add: WORKFLOWS_items_def)
  from dangling_references_exact [where g = module_loaded]
  have "\<forall>(wk, w) \<in> set (g_WORKFLOWS module_loaded). \<forall>t \<in> set (wf_tools w).
           t \<in> fst ` set (g_TOOLS module_loaded)"
    by blast
  with w t have r: "''partial_data_assessor'' \<in> fst ` set (g_TOOLS module_loaded)"
    by blast
  from bad nokey w t r show ?thesis
    by simp
qed

section \<open>The whole tool catalog\<close>

text \<open>
  C5. \<^verbatim>\<open>get_all_tools()\<close> returns the full tool catalog: exactly the pairs of the
  static definition, five of them, in the order in which they are written there.
\<close>

theorem get_all_tools_static:
  "fst (get_all_tools module_loaded) = TOOLS_items
   \<and> map fst (fst (get_all_tools module_loaded)) =
       [ ''partial_data_assessor'', ''run_fit'', ''result_assessor'', ''create_model_script'',
         ''create_temporary_model'' ]
   \<and> length (fst (get_all_tools module_loaded)) = 5"
  by (simp add: loaded_tools TOOLS_keys length_TOOLS_items)

text \<open>
  C6. After construction the tool catalog is well-formed: its keys are pairwise
  distinct, so no two entries share a key, and the \<^verbatim>\<open>data_type\<close> of every entry is
  one of \<^verbatim>\<open>"partial"\<close>, \<^verbatim>\<open>"combined"\<close> and \<^verbatim>\<open>"both"\<close>.
\<close>

theorem tool_catalog_well_formed:
  "distinct (map fst (fst (get_all_tools module_loaded)))
   \<and> (\<forall>k e1 e2. (k, e1) \<in> set (fst (get_all_tools module_loaded)) \<and>
         (k, e2) \<in> set (fst (get_all_tools module_loaded)) \<longrightarrow> e1 = e2)
   \<and> (\<forall>(k, e) \<in> set (fst (get_all_tools module_loaded)).
         data_type e \<in> {''partial'', ''combined'', ''both''})"
proof -
  have d: "distinct (map fst TOOLS_items)"
    by (rule distinct_TOOLS_items)
  have u: "e1 = e2" if "(k, e1) \<in> set TOOLS_items" "(k, e2) \<in> set TOOLS_items" for k e1 e2
    using d that by (meson eq_key_imp_eq_value)
  have "\<forall>x \<in> set (map (\<lambda>(k, e). data_type e) TOOLS_items).
          x \<in> {''partial'', ''combined'', ''both''}"
    unfolding TOOLS_data_types by simp
  then have t: "\<forall>(k, e) \<in> set TOOLS_items. data_type e \<in> {''partial'', ''combined'', ''both''}"
    by auto
  show ?thesis
    unfolding loaded_tools using d u t by blast
qed

text \<open>The second entry of the catalog, \<^verbatim>\<open>run_fit\<close>, carries one of the three tags.\<close>

theorem tool_catalog_well_formed_witness:
  "TOOLS_items ! 1 \<in> set (fst (get_all_tools module_loaded))
   \<and> data_type (snd (TOOLS_items ! 1)) \<in> {''partial'', ''combined'', ''both''}
   \<and> distinct (map fst (fst (get_all_tools module_loaded)))"
proof -
  have m: "TOOLS_items ! 1 \<in> set (fst (get_all_tools module_loaded))"
    by (simp add: loaded_tools length_TOOLS_items)
  from tool_catalog_well_formed m show ?thesis
    by (auto simp: split_beta)
qed

section \<open>Repeated queries\<close>

text \<open>
  C7. Two successive calls of \<^verbatim>\<open>get_all_tools()\<close>, the second on the state the first
  leaves behind, return the same dictionary with its entries in the same order; on
  the loaded module that order is the order of the static definition, on the first
  call and on the second.
\<close>

theorem get_all_tools_order_stable:
  "fst (get_all_tools (snd (get_all_tools g))) = fst (get_all_tools g)
   \<and> map fst (fst (get_all_tools module_loaded)) = map fst TOOLS_items
   \<and> map fst (fst (get_all_tools (snd (get_all_tools module_loaded)))) = map fst TOOLS_items"
  by (simp add: get_all_tools_def module_loaded_def TOOLS_eq)

text \<open>
  C8. Each of the four queries leaves the module's globals, the tool catalog and the
  workflow catalog, as it found them, and a second call with the same argument
  returns a result equal to the first.
\<close>

theorem queries_idempotent:
  "snd (get_all_tools g) = g \<and> snd (get_tool k g) = g
   \<and> snd (get_tools_by_data_type c g) = g \<and> snd (get_workflows g) = g
   \<and> fst (get_all_tools (snd (get_all_tools g))) = fst (get_all_tools g)
   \<and> fst (get_tool k (snd (get_tool k g))) = fst (get_tool k g)
   \<and> fst (get_tools_by_data_type c (snd (get_tools_by_data_type c g))) =
       fst (get_tools_by_data_type c g)
   \<and> fst (get_workflows (snd (get_workflows g))) = fst (get_workflows g)"
  by (simp add: get_all_tools_def get_tool_def get_tools_by_data_type_def get_workflows_def)

section \<open>Categories that no entry carries\<close>

text \<open>
  C9. When the argument \<open>c\<close> is the \<^verbatim>\<open>data_type\<close> of no entry except through the
  \<^verbatim>\<open>"both"\<close> rule (so for \<^verbatim>\<open>"both"\<close> itself and for any string that is no tag at
  all), \<^verbatim>\<open>get_tools_by_data_type(c)\<close> returns exactly the entries tagged \<^verbatim>\<open>"both"\<close>:
  for the static catalog the single entry \<^verbatim>\<open>create_temporary_model\<close>. The argument
  is not validated, and the result is not empty.
\<close>

theorem unknown_category_returns_both_entries:
  assumes "\<forall>(k, e) \<in> set (fst (get_all_tools module_loaded)).
             data_type e = c \<longrightarrow> data_type e = ''both''"
  shows "fst (get_tools_by_data_type c module_loaded) =
           filter (\<lambda>(k, e). data_type e = ''both'') (fst (get_all_tools module_loaded))
       \<and> fst (get_tools_by_data_type c module_loaded) = [TOOLS_items ! 4]
       \<and> map fst (fst (get_tools_by_data_type c module_loaded)) = [''create_temporary_model'']
       \<and> fst (get_tools_by_data_type c module_loaded) \<noteq> []"
proof -
  have eq: "filter (\<lambda>(name, tool). data_type tool = c \<or> data_type tool = ''both'') TOOLS_items
          = filter (\<lambda>(k, e). data_type e = ''both'') TOOLS_items"
    using assms unfolding loaded_tools by (intro filter_cong) auto
  have both: "filter (\<lambda>(k, e). data_type e = ''both'') TOOLS_items = [TOOLS_items ! 4]"
    by (simp add: TOOLS_items_def ToolInfo_init_def)
  have key: "fst (TOOLS_items ! 4) = ''create_temporary_model''"
    by (simp add: TOOLS_items_def)
  show ?thesis
    unfolding loaded_by_data_type loaded_tools eq both using key by simp
qed

text \<open>
  Both \<^verbatim>\<open>"xyz"\<close> and \<^verbatim>\<open>"both"\<close> are such arguments, and each returns the one entry
  \<^verbatim>\<open>create_temporary_model\<close>.
\<close>

theorem unknown_category_returns_both_entries_witness:
  "map fst (fst (get_tools_by_data_type ''xyz'' module_loaded)) = [''create_temporary_model'']
   \<and> map fst (fst (get_tools_by_data_type ''both'' module_loaded)) = [''create_temporary_model'']"
proof -
  have types: "set (map (\<lambda>(k, e). data_type e) TOOLS_items) = {''partial'', ''combined'', ''both''}"
    unfolding TOOLS_data_types by auto
  have h: "\<forall>(k, e) \<in> set (fst (get_all_tools module_loaded)).
             data_type e = c \<longrightarrow> data_type e = ''both''"
    if "c \<noteq> ''partial''" "c \<noteq> ''combined''" for c
  proof -
    have "data_type e \<in> {''partial'', ''combined'', ''both''}"
      if "(k, e) \<in> set TOOLS_items" for k e
      using that types by force
    with that show ?thesis
      unfolding loaded_tools by auto
  qed
  have x: "\<forall>(k, e) \<in> set (fst (get_all_tools module_loaded)).
             data_type e = ''xyz'' \<longrightarrow> data_type e = ''both''"
    by (rule h) simp_all
  have b: "\<forall>(k, e) \<in> set (fst (get_all_tools module_loaded)).
             data_type e = ''both'' \<longrightarrow> data_type e = ''both''"
    by (rule h) simp_all
  from unknown_category_returns_both_entries [OF x] unknown_category_returns_both_entries [OF b]
  show ?thesis
    by blast
qed

text \<open>
  C10. For every argument \<open>c\<close>, the result of \<^verbatim>\<open>get_tools_by_data_type(c)\<close> is the
  full tool catalog with the entries that do not match left out: the matching
  entries stand in the same relative order as in the catalog.
\<close>

theorem filter_preserves_catalog_order:
  "fst (get_tools_by_data_type c module_loaded) =
     filter (\<lambda>(name, tool). data_type tool = c \<or> data_type tool = ''both'')
       (fst (get_all_tools module_loaded))
   \<and> subseq (fst (get_tools_by_data_type c module_loaded)) (fst (get_all_tools module_loaded))"
  by (simp add: loaded_by_data_type loaded_tools)

end
